theory Spec2Isabelle
  imports Main "HOL-Library.AList"
begin

section \<open>Python values, exceptions and the objects the diffing server handles\<close>

text \<open>
  The development embeds \<^verbatim>\<open>web_monitoring/diffing_server.py\<close>: the request handler
  \<^verbatim>\<open>DiffHandler.get\<close>, the helper \<^verbatim>\<open>_extract_encoding\<close> and the translation layer
  \<^verbatim>\<open>caller\<close>.

  A Python \<^verbatim>\<open>bytes\<close> object is a \<^typ>\<open>string\<close> (an Isabelle character is one byte).
  A Python \<^verbatim>\<open>str\<close> is a \<^typ>\<open>string\<close> too; the two are kept apart by the constructors
  of \<open>pyval\<close>. Text only ever comes out of the codec, which is a parameter of the
  model, so nothing below depends on how code points are represented.
\<close>

datatype pyval = PNone | PBool bool | PInt int | PStr string | PBytes string

datatype pyerr =
    KeyError string
  | IndexError
  | LookupError string
  | UnicodeDecodeError
  | TypeError string
  | HTTPError nat
  | Exception string

text \<open>\<^verbatim>\<open>tornado.httpclient.HTTPResponse\<close> with the request it answers. The headers
  are keyed by their normalised name, as \<^verbatim>\<open>HTTPHeaders\<close> does.\<close>

record http_request =
  url :: string

record http_response =
  request :: http_request
  code :: nat
  headers :: "string \<rightharpoonup> string"
  body :: string

text \<open>A differ is a Python function: its \<^verbatim>\<open>__name__\<close>, the parameters that
  \<^verbatim>\<open>inspect.signature\<close> reports (in order, each with its default, \<open>Empty\<close> being
  \<^verbatim>\<open>inspect._empty\<close>) and what a call with keyword arguments returns or raises.\<close>

datatype default = Empty | Default pyval

record differ =
  func_name :: string
  parameters :: "(string \<times> default) list"
  call :: "(string \<times> pyval) list \<Rightarrow> pyerr + pyval"

text \<open>The libraries the module calls are the environment: the HTTP client
  (\<^verbatim>\<open>client.fetch\<close>), \<^verbatim>\<open>hashlib.sha256(...).hexdigest()\<close>, the strict UTF-8 decoding of
  \<^verbatim>\<open>bytes.decode()\<close> and the codec lookup of \<^verbatim>\<open>bytes.decode(encoding, errors='ignore')\<close>,
  which raises \<^verbatim>\<open>LookupError\<close> on an unknown encoding name.\<close>

record env =
  fetch :: "string \<Rightarrow> pyerr + http_response"
  sha256_hexdigest :: "string \<Rightarrow> string"
  decode_strict :: "string \<Rightarrow> pyerr + string"
  decode_ignore :: "string \<Rightarrow> string \<Rightarrow> pyerr + string"

text \<open>What a request leaves behind: the response, and the calls made on its behalf,
  in order.\<close>

datatype response =
    SendError nat "string option"
  | Write "(string \<times> pyval) list"
  | Uncaught pyerr

datatype event = Fetch string | Invoke string "(string \<times> pyval) list"

record outcome =
  response :: response
  trace :: "event list"

text \<open>Tornado answers an exception that is not a \<^verbatim>\<open>tornado.web.HTTPError\<close> with status
  500; \<^verbatim>\<open>write\<close> followed by the end of the handler is a 200.\<close>

fun status :: "response \<Rightarrow> nat" where
  "status (SendError n reason) = n"
| "status (Write chunk) = 200"
| "status (Uncaught e) = 500"



section \<open>Dictionary and string operations of Python\<close>

definition pop :: "(string \<rightharpoonup> 'v) \<Rightarrow> string \<Rightarrow> pyerr + ('v \<times> (string \<rightharpoonup> 'v))" where
  "pop d k = (case d k of None \<Rightarrow> Inl (KeyError k) | Some v \<Rightarrow> Inr (v, d(k := None)))"

definition setdefault :: "(string \<rightharpoonup> 'v) \<Rightarrow> string \<Rightarrow> 'v \<Rightarrow> (string \<rightharpoonup> 'v)" where
  "setdefault d k v = (case d k of None \<Rightarrow> d(k \<mapsto> v) | Some w \<Rightarrow> d)"

fun startswith :: "string \<Rightarrow> string \<Rightarrow> bool" where
  "startswith s [] = True"
| "startswith [] (p # ps) = False"
| "startswith (c # cs) (p # ps) = (c = p \<and> startswith cs ps)"

text \<open>\<^verbatim>\<open>sub in s\<close>\<close>

fun contains :: "string \<Rightarrow> string \<Rightarrow> bool" where
  "contains [] sub = (sub = [])"
| "contains (c # cs) sub = (startswith (c # cs) sub \<or> contains cs sub)"

text \<open>\<^verbatim>\<open>s.split(sep)\<close> for a non-empty separator: the pieces between the occurrences of
  \<open>sep\<close>, found from the left; \<open>cur\<close> is the piece being read.\<close>

function split_from :: "string \<Rightarrow> string \<Rightarrow> string \<Rightarrow> string list" where
  "split_from sep cur [] = [cur]"
| "split_from sep cur (c # cs) =
     (if sep \<noteq> [] \<and> startswith (c # cs) sep
      then cur # split_from sep [] (drop (length sep) (c # cs))
      else split_from sep (cur @ [c]) cs)"
  by pat_completeness auto
termination
  by (relation "measure (\<lambda>(sep, cur, s). length s)") auto

definition split :: "string \<Rightarrow> string \<Rightarrow> string list" where
  "split s sep = split_from sep [] s"

text \<open>\<^verbatim>\<open>x or d\<close> on an optional string: \<^verbatim>\<open>None\<close> and the empty string are false.\<close>

fun or_else :: "string option \<Rightarrow> string \<Rightarrow> string" where
  "or_else None d = d"
| "or_else (Some s) d = (if s = [] then d else s)"

section \<open>The translation layer\<close>

text \<open>\<^verbatim>\<open>_extract_encoding\<close> (lines 76 to 81). Indexing the headers raises
  \<^verbatim>\<open>KeyError\<close> when the response has no Content-Type.\<close>

definition extract_encoding :: "(string \<rightharpoonup> string) \<Rightarrow> pyerr + string option" where
  "extract_encoding hdrs =
     (case hdrs ''Content-Type'' of
        None \<Rightarrow> Inl (KeyError ''Content-Type'')
      | Some content_type \<Rightarrow>
          if contains content_type ''charset=''
          then Inr (Some (last (split content_type ''charset='')))
          else Inr None)"

text \<open>Lines 111 to 118 of \<^verbatim>\<open>caller\<close>: the query parameters supplemented with the items
  extracted from \<open>a\<close> and \<open>b\<close>. Both encodings are read from \<open>a\<close>'s headers, as line 116
  does.\<close>

definition supplement ::
  "env \<Rightarrow> http_response \<Rightarrow> http_response \<Rightarrow> (string \<rightharpoonup> pyval) \<Rightarrow> pyerr + (string \<rightharpoonup> pyval)"
where
  "supplement e a b query_params =
     (let qp1 = setdefault query_params ''a_url'' (PStr (url (request a)));
          qp2 = setdefault qp1 ''b_url'' (PStr (url (request b)));
          qp3 = setdefault qp2 ''a_body'' (PBytes (body a));
          qp4 = setdefault qp3 ''b_body'' (PBytes (body b))
      in case extract_encoding (headers a) of
           Inl err \<Rightarrow> Inl err
         | Inr enc_a \<Rightarrow>
             (let a_encoding = or_else enc_a ''UTF-8'' in
              case extract_encoding (headers a) of
                Inl err \<Rightarrow> Inl err
              | Inr enc_b \<Rightarrow>
                  (let b_encoding = or_else enc_b ''UTF-8'' in
                   case decode_ignore e (body a) a_encoding of
                     Inl err \<Rightarrow> Inl err
                   | Inr a_text \<Rightarrow>
                       (let qp5 = setdefault qp4 ''a_text'' (PStr a_text) in
                        case decode_ignore e (body b) b_encoding of
                          Inl err \<Rightarrow> Inl err
                        | Inr b_text \<Rightarrow> Inr (setdefault qp5 ''b_text'' (PStr b_text))))))"

text \<open>Lines 121 to 131: the loop over the differ's signature. \<open>kwargs\<close> is the dictionary
  built so far, in insertion order.\<close>

definition missing_parameter :: "string \<Rightarrow> string \<Rightarrow> pyerr" where
  "missing_parameter fname name =
     KeyError (fname @ '' requires a parameter '' @ name @
               '' which was not provided in the query'')"

fun bind_kwargs ::
  "string \<Rightarrow> (string \<rightharpoonup> pyval) \<Rightarrow> (string \<times> default) list \<Rightarrow> (string \<times> pyval) list
   \<Rightarrow> pyerr + (string \<times> pyval) list"
where
  "bind_kwargs fname query_params [] kwargs = Inr kwargs"
| "bind_kwargs fname query_params ((name, dflt) # ps) kwargs =
     (case query_params name of
        Some v \<Rightarrow> bind_kwargs fname query_params ps (AList.update name v kwargs)
      | None \<Rightarrow>
          (case dflt of
             Empty \<Rightarrow> Inl (missing_parameter fname name)
           | Default d \<Rightarrow> bind_kwargs fname query_params ps kwargs))"

text \<open>\<^verbatim>\<open>caller\<close> up to its last line: the keyword arguments the differ is called with.\<close>

definition caller_kwargs ::
  "env \<Rightarrow> differ \<Rightarrow> http_response \<Rightarrow> http_response \<Rightarrow> (string \<rightharpoonup> pyval)
   \<Rightarrow> pyerr + (string \<times> pyval) list"
where
  "caller_kwargs e func a b query_params =
     (case supplement e a b query_params of
        Inl err \<Rightarrow> Inl err
      | Inr qp \<Rightarrow> bind_kwargs (func_name func) qp (parameters func) [])"

text \<open>\<^verbatim>\<open>caller\<close> (lines 83 to 132).\<close>

definition caller ::
  "env \<Rightarrow> differ \<Rightarrow> http_response \<Rightarrow> http_response \<Rightarrow> (string \<rightharpoonup> pyval) \<Rightarrow> pyerr + pyval"
where
  "caller e func a b query_params =
     (case caller_kwargs e func a b query_params of
        Inl err \<Rightarrow> Inl err
      | Inr kwargs \<Rightarrow> call func kwargs)"

section \<open>The request handler\<close>

text \<open>Lines 46 and 47: the last value of every query parameter, decoded.
  \<open>items\<close> are the items of \<^verbatim>\<open>self.request.arguments\<close>, \<open>d\<close> the dictionary built so far.\<close>

fun query_params_of ::
  "env \<Rightarrow> (string \<times> string list) list \<Rightarrow> (string \<rightharpoonup> string) \<Rightarrow> pyerr + (string \<rightharpoonup> string)"
where
  "query_params_of e [] d = Inr d"
| "query_params_of e ((k, v) # items) d =
     (if v = [] then Inl IndexError
      else case decode_strict e (last v) of
             Inl err \<Rightarrow> Inl err
           | Inr s \<Rightarrow> query_params_of e items (d(k \<mapsto> s)))"

text \<open>Lines 55 to 66: the loop over \<^verbatim>\<open>zip(('a_hash', 'b_hash'), (res_a, res_b))\<close>. The
  body pops the literal key \<^verbatim>\<open>'a_hash'\<close> and never reads \<open>query_param\<close>. \<open>Inl\<close> is the
  early return after \<^verbatim>\<open>send_error\<close>.\<close>

fun validate ::
  "env \<Rightarrow> (string \<times> http_response) list \<Rightarrow> (string \<rightharpoonup> string)
   \<Rightarrow> response + (string \<rightharpoonup> string)"
where
  "validate e [] query_params = Inr query_params"
| "validate e ((query_param, res) # rest) query_params =
     (case query_params ''a_hash'' of
        None \<Rightarrow> validate e rest query_params
      | Some expected_hash \<Rightarrow>
          (let actual_hash = sha256_hexdigest e (body res) in
           if actual_hash \<noteq> expected_hash
           then Inl (SendError 500 (Some ''Fetched content does not match hash.''))
           else validate e rest (query_params(''a_hash'' := None))))"

text \<open>Line 72: \<^verbatim>\<open>caller(func, res_a, res_b, **query_params)\<close>, run by the executor.
  A query parameter named like one of \<^verbatim>\<open>caller\<close>'s own parameters is a
  \<^verbatim>\<open>TypeError\<close>. The events are the calls of the differ this makes.\<close>

definition as_keywords :: "(string \<rightharpoonup> string) \<Rightarrow> (string \<rightharpoonup> pyval)" where
  "as_keywords query_params = (\<lambda>k. map_option PStr (query_params k))"

definition submit_caller ::
  "env \<Rightarrow> differ \<Rightarrow> http_response \<Rightarrow> http_response \<Rightarrow> (string \<rightharpoonup> string)
   \<Rightarrow> event list \<times> (pyerr + pyval)"
where
  "submit_caller e func res_a res_b query_params =
     (if query_params ''func'' = None \<and> query_params ''a'' = None \<and> query_params ''b'' = None
      then (case caller_kwargs e func res_a res_b (as_keywords query_params) of
              Inl err \<Rightarrow> ([], Inl err)
            | Inr kwargs \<Rightarrow> ([Invoke (func_name func) kwargs], call func kwargs))
      else ([], Inl (TypeError ''caller() got multiple values for argument'')))"

text \<open>Lines 54 to 73, once both responses are there.\<close>

definition validate_and_diff ::
  "env \<Rightarrow> differ \<Rightarrow> http_response \<Rightarrow> http_response \<Rightarrow> (string \<rightharpoonup> string) \<Rightarrow> event list
   \<Rightarrow> outcome"
where
  "validate_and_diff e func res_a res_b query_params tr =
     (case validate e [(''a_hash'', res_a), (''b_hash'', res_b)] query_params of
        Inl r \<Rightarrow> \<lparr>response = r, trace = tr\<rparr>
      | Inr qp \<Rightarrow>
          (case submit_caller e func res_a res_b qp of
             (evs, Inl err) \<Rightarrow> \<lparr>response = Uncaught err, trace = tr @ evs\<rparr>
           | (evs, Inr res) \<Rightarrow> \<lparr>response = Write [(''diff'', res)], trace = tr @ evs\<rparr>))"

text \<open>Lines 48 to 52: both URLs are popped, both fetches are started, and the handler
  waits for the two of them.\<close>

definition fetch_and_diff :: "env \<Rightarrow> differ \<Rightarrow> (string \<rightharpoonup> string) \<Rightarrow> outcome" where
  "fetch_and_diff e func query_params =
     (case pop query_params ''a'' of
        Inl err \<Rightarrow> \<lparr>response = Uncaught err, trace = []\<rparr>
      | Inr (a, qp1) \<Rightarrow>
          (case pop qp1 ''b'' of
             Inl err \<Rightarrow> \<lparr>response = Uncaught err, trace = []\<rparr>
           | Inr (b, qp2) \<Rightarrow>
               (case fetch e a of
                  Inl err \<Rightarrow> \<lparr>response = Uncaught err, trace = [Fetch a, Fetch b]\<rparr>
                | Inr res_a \<Rightarrow>
                    (case fetch e b of
                       Inl err \<Rightarrow> \<lparr>response = Uncaught err, trace = [Fetch a, Fetch b]\<rparr>
                     | Inr res_b \<Rightarrow>
                         validate_and_diff e func res_a res_b qp2 [Fetch a, Fetch b]))))"

text \<open>\<^verbatim>\<open>DiffHandler.get\<close> (lines 37 to 73). \<open>differs\<close> is the class attribute of
  the bound handler, \<open>arguments\<close> the items of \<^verbatim>\<open>self.request.arguments\<close>.\<close>

definition get ::
  "env \<Rightarrow> (string \<rightharpoonup> differ) \<Rightarrow> string \<Rightarrow> (string \<times> string list) list \<Rightarrow> outcome"
where
  "get e differs differ arguments =
     (case differs differ of
        None \<Rightarrow> \<lparr>response = SendError 404 None, trace = []\<rparr>
      | Some func \<Rightarrow>
          (case query_params_of e arguments Map.empty of
             Inl err \<Rightarrow> \<lparr>response = Uncaught err, trace = []\<rparr>
           | Inr query_params \<Rightarrow> fetch_and_diff e func query_params))"

text \<open>The names with a special meaning (lines 102 to 104, lines 111 to 118).\<close>

definition derived_keys :: "string list" where
  "derived_keys = [''a_url'', ''b_url'', ''a_body'', ''b_body'', ''a_text'', ''b_text'']"


text \<open>\<^verbatim>\<open>str.lower\<close> on ASCII text: an upper-case letter (65 to 90) gets bit 5 set.\<close>

definition lower_char :: "char \<Rightarrow> char" where
  "lower_char c =
     (if 65 \<le> (of_char c :: nat) \<and> (of_char c :: nat) \<le> 90
      then (case c of Char b0 b1 b2 b3 b4 b5 b6 b7 \<Rightarrow> Char b0 b1 b2 b3 b4 True b6 b7)
      else c)"

definition lower :: "string \<Rightarrow> string" where
  "lower s = map lower_char s"

section \<open>A small web and a few differs, for the examples\<close>

definition page_a :: http_response where
  "page_a = \<lparr>request = \<lparr>url = ''http://example.org/a''\<rparr>, code = 200,
             headers = [''Content-Type'' \<mapsto> ''text/html; charset=latin-1''],
             body = ''asdf''\<rparr>"

definition page_b :: http_response where
  "page_b = \<lparr>request = \<lparr>url = ''http://example.org/b''\<rparr>, code = 200,
             headers = [''Content-Type'' \<mapsto> ''text/html''],
             body = ''asd''\<rparr>"

definition page_cafe :: http_response where
  "page_cafe = \<lparr>request = \<lparr>url = ''http://example.org/cafe''\<rparr>, code = 200,
                headers = [''Content-Type'' \<mapsto> ''text/html''],
                body = ''caf'' @ [CHR 0xE9]\<rparr>"

definition page_bare :: http_response where
  "page_bare = \<lparr>request = \<lparr>url = ''http://example.org/bare''\<rparr>, code = 200,
                headers = Map.empty,
                body = ''asdf''\<rparr>"

definition example_fetch :: "string \<Rightarrow> pyerr + http_response" where
  "example_fetch u =
     (if u = ''http://example.org/a'' then Inr page_a
      else if u = ''http://example.org/b'' then Inr page_b
      else if u = ''http://example.org/cafe'' then Inr page_cafe
      else if u = ''http://example.org/bare'' then Inr page_bare
      else Inl (HTTPError 404))"

text \<open>The digests \<^verbatim>\<open>hashlib\<close> reports for the bodies \<^verbatim>\<open>b'asdf'\<close> and \<^verbatim>\<open>b'asd'\<close>; the
  examples hash no other body.\<close>

definition example_sha256 :: "string \<Rightarrow> string" where
  "example_sha256 bs =
     (if bs = ''asdf''
      then ''f0e4c2f76c58916ec258f246851bea091d14d4247a2fc3e18694461b1816e13b''
      else if bs = ''asd''
      then ''688787d8ff144c502c7f5cffaafe2cc588d86079f9de88304c26b0cb99ce91c6''
      else ''e3b0c44298fc1c149afbf4c8996fb92427ae41e4649b934ca495991b7852b855'')"

definition is_ascii :: "char \<Rightarrow> bool" where
  "is_ascii c = (of_char c < (128::nat))"

text \<open>The codecs on the byte strings of the examples, none of which holds a valid
  multi-byte UTF-8 sequence: UTF-8 with \<^verbatim>\<open>errors='ignore'\<close> keeps the ASCII bytes,
  Latin-1 maps every byte to the code point of the same number.\<close>

definition example_decode_strict :: "string \<Rightarrow> pyerr + string" where
  "example_decode_strict bs = (if list_all is_ascii bs then Inr bs else Inl UnicodeDecodeError)"

definition example_decode_ignore :: "string \<Rightarrow> string \<Rightarrow> pyerr + string" where
  "example_decode_ignore bs encoding =
     (if encoding = ''UTF-8'' then Inr (filter is_ascii bs)
      else if encoding = ''latin-1'' then Inr bs
      else Inl (LookupError encoding))"

definition example_env :: env where
  "example_env = \<lparr>fetch = example_fetch, sha256_hexdigest = example_sha256,
                   decode_strict = example_decode_strict,
                   decode_ignore = example_decode_ignore\<rparr>"

text \<open>Two differs for the examples. Both declare the required parameters \<^verbatim>\<open>a_body\<close>
  and \<^verbatim>\<open>b_body\<close>: the first returns the difference of the lengths of the two bodies,
  the second whether the two bodies are the same bytes.\<close>

definition bodies_of :: "(string \<times> pyval) list \<Rightarrow> (string \<times> string) option" where
  "bodies_of kwargs =
     (case map_of kwargs ''a_body'' of
        Some (PBytes a_body) \<Rightarrow>
          (case map_of kwargs ''b_body'' of
             Some (PBytes b_body) \<Rightarrow> Some (a_body, b_body)
           | _ \<Rightarrow> None)
      | _ \<Rightarrow> None)"

definition length_difference :: differ where
  "length_difference =
     \<lparr>func_name = ''length_difference'',
      parameters = [(''a_body'', Empty), (''b_body'', Empty)],
      call = (\<lambda>kwargs. case bodies_of kwargs of
                None \<Rightarrow> Inl (TypeError ''length_difference'')
              | Some (a_body, b_body) \<Rightarrow> Inr (PInt (int (length b_body) - int (length a_body))))\<rparr>"

definition same_bytes :: differ where
  "same_bytes =
     \<lparr>func_name = ''same_bytes'',
      parameters = [(''a_body'', Empty), (''b_body'', Empty)],
      call = (\<lambda>kwargs. case bodies_of kwargs of
                None \<Rightarrow> Inl (TypeError ''same_bytes'')
              | Some (a_body, b_body) \<Rightarrow> Inr (PBool (a_body = b_body)))\<rparr>"

text \<open>A differ with the given signature that returns \<^verbatim>\<open>None\<close>, to observe the keyword
  arguments it is called with.\<close>

definition probe :: "string \<Rightarrow> (string \<times> default) list \<Rightarrow> differ" where
  "probe fname ps = \<lparr>func_name = fname, parameters = ps, call = (\<lambda>kwargs. Inr PNone)\<rparr>"

definition example_differs :: "string \<rightharpoonup> differ" where
  "example_differs =
     [''length_difference'' \<mapsto> length_difference,
      ''same_bytes'' \<mapsto> same_bytes,
      ''urls'' \<mapsto> probe ''urls'' [(''a_url'', Empty), (''b_url'', Empty)],
      ''texts'' \<mapsto> probe ''texts'' [(''a_text'', Empty), (''b_text'', Empty)],
      ''hashes'' \<mapsto> probe ''hashes'' [(''a_hash'', Default PNone), (''b_hash'', Empty)],
      ''within'' \<mapsto> probe ''within'' [(''a_body'', Empty), (''b_body'', Empty),
                                       (''tolerance'', Empty), (''unit'', Default (PStr ''bytes''))]]"

section \<open>Facts about the dictionary operations, the binder and the handler\<close>

lemmas example_defs =
  example_env_def example_fetch_def example_sha256_def example_decode_strict_def
  example_decode_ignore_def is_ascii_def page_a_def page_b_def page_cafe_def page_bare_def
  example_differs_def length_difference_def same_bytes_def probe_def bodies_of_def
  lower_def lower_char_def

lemmas handler_defs =
  get_def fetch_and_diff_def validate_and_diff_def submit_caller_def caller_kwargs_def
  caller_def supplement_def extract_encoding_def setdefault_def pop_def as_keywords_def
  split_def missing_parameter_def Let_def

lemma setdefault_apply:
  "setdefault d k v n =
     (case d n of Some w \<Rightarrow> Some w | None \<Rightarrow> if n = k then Some v else None)"
  by (simp add: setdefault_def split: option.splits)

lemma supplementE:
  assumes "supplement e a b qp = Inr qp'"
  obtains enc a_text b_text where
    "extract_encoding (headers a) = Inr enc"
    "decode_ignore e (body a) (or_else enc ''UTF-8'') = Inr a_text"
    "decode_ignore e (body b) (or_else enc ''UTF-8'') = Inr b_text"
    "qp' = setdefault (setdefault (setdefault (setdefault (setdefault (setdefault qp
             ''a_url'' (PStr (url (request a)))) ''b_url'' (PStr (url (request b))))
             ''a_body'' (PBytes (body a))) ''b_body'' (PBytes (body b)))
             ''a_text'' (PStr a_text)) ''b_text'' (PStr b_text)"
  using assms unfolding supplement_def Let_def
  by (simp split: sum.splits)


lemma supplement_apply:
  assumes "supplement e a b qp = Inr qp'" and "supplement e a b Map.empty = Inr d"
  shows "qp' n = (case qp n of Some v \<Rightarrow> Some v | None \<Rightarrow> d n)"
proof -
  from assms(1) obtain enc ta tb where
    1: "extract_encoding (headers a) = Inr enc"
       "decode_ignore e (body a) (or_else enc ''UTF-8'') = Inr ta"
       "decode_ignore e (body b) (or_else enc ''UTF-8'') = Inr tb"
    and qp': "qp' = setdefault (setdefault (setdefault (setdefault (setdefault (setdefault qp
             ''a_url'' (PStr (url (request a)))) ''b_url'' (PStr (url (request b))))
             ''a_body'' (PBytes (body a))) ''b_body'' (PBytes (body b)))
             ''a_text'' (PStr ta)) ''b_text'' (PStr tb)"
    by (rule supplementE)
  from assms(2) obtain enc2 ta2 tb2 where
    2: "extract_encoding (headers a) = Inr enc2"
       "decode_ignore e (body a) (or_else enc2 ''UTF-8'') = Inr ta2"
       "decode_ignore e (body b) (or_else enc2 ''UTF-8'') = Inr tb2"
    and d: "d = setdefault (setdefault (setdefault (setdefault (setdefault (setdefault Map.empty
             ''a_url'' (PStr (url (request a)))) ''b_url'' (PStr (url (request b))))
             ''a_body'' (PBytes (body a))) ''b_body'' (PBytes (body b)))
             ''a_text'' (PStr ta2)) ''b_text'' (PStr tb2)"
    by (rule supplementE)
  from 1 2 have eq: "ta2 = ta" "tb2 = tb" by simp_all
  show ?thesis
    unfolding qp' d eq
    by (cases "qp n") (simp_all add: setdefault_apply)
qed

lemma supplement_total:
  assumes "supplement e a b qp = Inr qp'"
  shows "\<exists>d. supplement e a b qp2 = Inr d"
proof -
  from assms obtain enc ta tb where
    "extract_encoding (headers a) = Inr enc"
    "decode_ignore e (body a) (or_else enc ''UTF-8'') = Inr ta"
    "decode_ignore e (body b) (or_else enc ''UTF-8'') = Inr tb"
    by (rule supplementE)
  then show ?thesis
    by (simp add: supplement_def Let_def)
qed

lemma supplement_dom:
  assumes "supplement e a b Map.empty = Inr d"
  shows "(d n \<noteq> None) = (n \<in> set derived_keys)"
proof -
  from assms obtain enc ta tb where
    d: "d = setdefault (setdefault (setdefault (setdefault (setdefault (setdefault Map.empty
             ''a_url'' (PStr (url (request a)))) ''b_url'' (PStr (url (request b))))
             ''a_body'' (PBytes (body a))) ''b_body'' (PBytes (body b)))
             ''a_text'' (PStr ta)) ''b_text'' (PStr tb)"
    by (rule supplementE)
  show ?thesis
    unfolding d derived_keys_def
    by (simp add: setdefault_apply)
qed


lemma bind_kwargs_map_of:
  "bind_kwargs fname qp ps kw0 = Inr kw \<Longrightarrow>
   map_of kw n = (if n \<in> fst ` set ps \<and> qp n \<noteq> None then qp n else map_of kw0 n)"
proof (induction ps arbitrary: kw0)
  case Nil
  then show ?case by simp
next
  case (Cons p ps)
  obtain name dflt where p: "p = (name, dflt)" by (cases p)
  show ?case
  proof (cases "qp name")
    case None
    with Cons.prems p have "bind_kwargs fname qp ps kw0 = Inr kw"
      by (cases dflt) auto
    from Cons.IH [OF this] None p show ?thesis by auto
  next
    case (Some v)
    with Cons.prems p have "bind_kwargs fname qp ps (AList.update name v kw0) = Inr kw"
      by simp
    from Cons.IH [OF this] Some p show ?thesis
      by (auto simp: update_conv')
  qed
qed




lemma validate_without_a_hash:
  assumes "qp ''a_hash'' = None"
  shows "validate e [(''a_hash'', res_a), (''b_hash'', res_b)] qp = Inr qp"
  using assms by simp

lemma validate_with_a_hash:
  assumes "qp ''a_hash'' = Some expected_hash"
  shows "validate e [(''a_hash'', res_a), (''b_hash'', res_b)] qp =
           (if sha256_hexdigest e (body res_a) = expected_hash
            then Inr (qp(''a_hash'' := None))
            else Inl (SendError 500 (Some ''Fetched content does not match hash.'')))"
  using assms by simp

lemma validate_result:
  assumes "validate e [(''a_hash'', res_a), (''b_hash'', res_b)] qp = Inr qp'"
  shows "qp' = qp(''a_hash'' := None)"
  using assms by (cases "qp ''a_hash''") (auto split: if_splits)


lemma get_invokeE:
  assumes "Invoke fname kwargs \<in> set (trace (get e differs differ arguments))"
  obtains func qp a b res_a res_b qp' where
    "differs differ = Some func" and "fname = func_name func"
    and "query_params_of e arguments Map.empty = Inr qp"
    and "qp ''a'' = Some a" and "qp ''b'' = Some b"
    and "fetch e a = Inr res_a" and "fetch e b = Inr res_b"
    and "validate e [(''a_hash'', res_a), (''b_hash'', res_b)] (qp(''a'' := None, ''b'' := None))
           = Inr qp'"
    and "caller_kwargs e func res_a res_b (as_keywords qp') = Inr kwargs"
    and "response (get e differs differ arguments) =
           (case call func kwargs of Inl err \<Rightarrow> Uncaught err | Inr res \<Rightarrow> Write [(''diff'', res)])"
proof -
  from assms obtain func where f: "differs differ = Some func"
    by (cases "differs differ") (auto simp: get_def)
  from assms f obtain qp where q: "query_params_of e arguments Map.empty = Inr qp"
    by (cases "query_params_of e arguments Map.empty") (auto simp: get_def)
  from assms f q have 1: "Invoke fname kwargs \<in> set (trace (fetch_and_diff e func qp))"
    and r1: "get e differs differ arguments = fetch_and_diff e func qp"
    by (simp_all add: get_def)
  from 1 obtain a where a: "qp ''a'' = Some a"
    by (cases "qp ''a''") (auto simp: fetch_and_diff_def pop_def)
  from 1 a obtain b where b: "qp ''b'' = Some b"
    by (cases "qp ''b''") (auto simp: fetch_and_diff_def pop_def)
  from 1 a b obtain res_a where ra: "fetch e a = Inr res_a"
    by (cases "fetch e a") (auto simp: fetch_and_diff_def pop_def)
  from 1 a b ra obtain res_b where rb: "fetch e b = Inr res_b"
    by (cases "fetch e b") (auto simp: fetch_and_diff_def pop_def)
  let ?qp2 = "qp(''a'' := None, ''b'' := None)"
  from a b ra rb have r2: "fetch_and_diff e func qp =
      validate_and_diff e func res_a res_b ?qp2 [Fetch a, Fetch b]"
    by (simp add: fetch_and_diff_def pop_def)
  with 1 have 2: "Invoke fname kwargs \<in>
      set (trace (validate_and_diff e func res_a res_b ?qp2 [Fetch a, Fetch b]))"
    by simp
  then obtain qp' where v: "validate e [(''a_hash'', res_a), (''b_hash'', res_b)] ?qp2 = Inr qp'"
    by (cases "validate e [(''a_hash'', res_a), (''b_hash'', res_b)] ?qp2")
       (auto simp: validate_and_diff_def)
  from 2 v have 3: "Invoke fname kwargs \<in> set (fst (submit_caller e func res_a res_b qp'))"
    and r3: "validate_and_diff e func res_a res_b ?qp2 [Fetch a, Fetch b] =
       (case submit_caller e func res_a res_b qp' of
             (evs, Inl err) \<Rightarrow> \<lparr>response = Uncaught err, trace = [Fetch a, Fetch b] @ evs\<rparr>
           | (evs, Inr res) \<Rightarrow> \<lparr>response = Write [(''diff'', res)], trace = [Fetch a, Fetch b] @ evs\<rparr>)"
    by (auto simp: validate_and_diff_def split: prod.splits sum.splits)
  from 3 have k: "caller_kwargs e func res_a res_b (as_keywords qp') = Inr kwargs"
    and n: "fname = func_name func"
    and s: "submit_caller e func res_a res_b qp' = ([Invoke fname kwargs], call func kwargs)"
    by (auto simp: submit_caller_def split: if_splits sum.splits)
  have "response (get e differs differ arguments) =
           (case call func kwargs of Inl err \<Rightarrow> Uncaught err | Inr res \<Rightarrow> Write [(''diff'', res)])"
    unfolding r1 r2 r3 s by (simp split: sum.splits)
  with f n q a b ra rb v k show ?thesis by (rule that)
qed






text \<open>The two decoded texts, as lines 115 to 118 compute them: one encoding, read from
  the headers of \<open>a\<close>, decodes both bodies.\<close>

lemma texts_decoded_with_encoding_of_a:
  assumes "supplement e a b Map.empty = Inr d"
  shows "\<exists>enc a_text b_text.
           extract_encoding (headers a) = Inr enc
           \<and> decode_ignore e (body a) (or_else enc ''UTF-8'') = Inr a_text
           \<and> decode_ignore e (body b) (or_else enc ''UTF-8'') = Inr b_text
           \<and> d ''a_text'' = Some (PStr a_text) \<and> d ''b_text'' = Some (PStr b_text)"
proof -
  from assms obtain enc ta tb where
    "extract_encoding (headers a) = Inr enc"
    "decode_ignore e (body a) (or_else enc ''UTF-8'') = Inr ta"
    "decode_ignore e (body b) (or_else enc ''UTF-8'') = Inr tb"
    and d: "d = setdefault (setdefault (setdefault (setdefault (setdefault (setdefault Map.empty
             ''a_url'' (PStr (url (request a)))) ''b_url'' (PStr (url (request b))))
             ''a_body'' (PBytes (body a))) ''b_body'' (PBytes (body b)))
             ''a_text'' (PStr ta)) ''b_text'' (PStr tb)"
    by (rule supplementE)
  moreover have "d ''a_text'' = Some (PStr ta)" "d ''b_text'' = Some (PStr tb)"
    unfolding d by (simp_all add: setdefault_apply)
  ultimately show ?thesis by blast
qed

section \<open>The claims\<close>

text \<open>
  C1. A request whose \<open>b_hash\<close> is present and differs from the SHA-256 hex digest of the
  body fetched for \<open>b\<close> should fail with an error response, the differ never being
  called. The loop of lines 55 to 66 pops \<^verbatim>\<open>'a_hash'\<close> on both rounds, so \<open>b_hash\<close> is
  never compared: below, \<open>b_hash\<close> is the digest of another body, and the request is
  answered with the diff after the differ has been called.
\<close>

theorem b_hash_mismatch_not_rejected:
  "sha256_hexdigest example_env (body page_b)
     \<noteq> ''f0e4c2f76c58916ec258f246851bea091d14d4247a2fc3e18694461b1816e13b''
   \<and> get example_env example_differs ''length_difference''
        [(''a'', [''http://example.org/a'']), (''b'', [''http://example.org/b'']),
         (''b_hash'', [''f0e4c2f76c58916ec258f246851bea091d14d4247a2fc3e18694461b1816e13b''])]
     = \<lparr>response = Write [(''diff'', PInt (- 1))],
        trace = [Fetch ''http://example.org/a'', Fetch ''http://example.org/b'',
                 Invoke ''length_difference''
                   [(''a_body'', PBytes ''asdf''), (''b_body'', PBytes ''asd'')]]\<rparr>"
  by (simp add: handler_defs example_defs)

text \<open>
  C2. \<open>b_text\<close> should be the body of \<open>b\<close> decoded with the encoding that \<open>b\<close>'s own
  Content-Type declares, UTF-8 when it declares none. Line 116 reads the encoding from
  \<open>a\<close>'s headers: below, \<open>b\<close> declares no charset and \<open>a\<close> declares Latin-1, and the
  body of \<open>b\<close>, which UTF-8 would decode to \<open>caf\<close>, is decoded as Latin-1.
\<close>

theorem b_text_decoded_with_encoding_of_a:
  "extract_encoding (headers page_cafe) = Inr None
   \<and> decode_ignore example_env (body page_cafe) ''UTF-8'' = Inr ''caf''
   \<and> extract_encoding (headers page_a) = Inr (Some ''latin-1'')
   \<and> caller_kwargs example_env (probe ''texts'' [(''a_text'', Empty), (''b_text'', Empty)])
        page_a page_cafe Map.empty
     = Inr [(''a_text'', PStr ''asdf''), (''b_text'', PStr (''caf'' @ [CHR 0xE9]))]"
  by (simp add: handler_defs example_defs)




text \<open>
  C4, as amended. When \<open>a_hash\<close> is supplied, validation compares it with the SHA-256
  hex digest of resource \<open>a\<close>'s bytes by equality of strings: it passes, and removes
  \<open>a_hash\<close>, exactly when the two are the same string; otherwise the request is answered
  with 500 and the differ is not called.
\<close>

theorem a_hash_compared_exactly:
  assumes "differs differ = Some func"
    and "query_params_of e arguments Map.empty = Inr qp"
    and "qp ''a'' = Some a" and "qp ''b'' = Some b"
    and "fetch e a = Inr res_a" and "fetch e b = Inr res_b"
    and "qp ''a_hash'' = Some expected_hash"
  shows "validate e [(''a_hash'', res_a), (''b_hash'', res_b)] (qp(''a'' := None, ''b'' := None))
           = (if sha256_hexdigest e (body res_a) = expected_hash
              then Inr (qp(''a'' := None, ''b'' := None, ''a_hash'' := None))
              else Inl (SendError 500 (Some ''Fetched content does not match hash.'')))
         \<and> (if sha256_hexdigest e (body res_a) = expected_hash
            then response (get e differs differ arguments)
                   \<noteq> SendError 500 (Some ''Fetched content does not match hash.'')
            else get e differs differ arguments
                   = \<lparr>response = SendError 500 (Some ''Fetched content does not match hash.''),
                      trace = [Fetch a, Fetch b]\<rparr>)"
proof -
  let ?qp2 = "qp(''a'' := None, ''b'' := None)"
  have h: "?qp2 ''a_hash'' = Some expected_hash"
    using assms(7) by simp
  have v: "validate e [(''a_hash'', res_a), (''b_hash'', res_b)] ?qp2
           = (if sha256_hexdigest e (body res_a) = expected_hash
              then Inr (?qp2(''a_hash'' := None))
              else Inl (SendError 500 (Some ''Fetched content does not match hash.'')))"
    using validate_with_a_hash [where qp = ?qp2, OF h] .
  have g: "get e differs differ arguments
           = validate_and_diff e func res_a res_b ?qp2 [Fetch a, Fetch b]"
    using assms(1-6) by (simp add: get_def fetch_and_diff_def pop_def)
  show ?thesis
  proof (cases "sha256_hexdigest e (body res_a) = expected_hash")
    case True
    with v have "validate e [(''a_hash'', res_a), (''b_hash'', res_b)] ?qp2
                 = Inr (?qp2(''a_hash'' := None))"
      by simp
    then have "response (get e differs differ arguments)
               \<noteq> SendError 500 (Some ''Fetched content does not match hash.'')"
      unfolding g validate_and_diff_def
      by (simp split: prod.splits sum.splits del: validate.simps)
    with v True show ?thesis by simp
  next
    case False
    with v have "validate e [(''a_hash'', res_a), (''b_hash'', res_b)] ?qp2
                 = Inl (SendError 500 (Some ''Fetched content does not match hash.''))"
      by simp
    then have "get e differs differ arguments
                   = \<lparr>response = SendError 500 (Some ''Fetched content does not match hash.''),
                      trace = [Fetch a, Fetch b]\<rparr>"
      unfolding g validate_and_diff_def
      by (simp del: validate.simps)
    with v False show ?thesis by simp
  qed
qed

theorem a_hash_compared_exactly_witness:
  "response (get example_env example_differs ''same_bytes''
        [(''a'', [''http://example.org/a'']), (''b'', [''http://example.org/a'']),
         (''a_hash'', [''f0e4c2f76c58916ec258f246851bea091d14d4247a2fc3e18694461b1816e13b''])])
     \<noteq> SendError 500 (Some ''Fetched content does not match hash.'')
   \<and> response (get example_env example_differs ''same_bytes''
        [(''a'', [''http://example.org/a'']), (''b'', [''http://example.org/a'']),
         (''a_hash'', [''f0e4c2f76c58916ec258f246851bea091d14d4247a2fc3e18694461b1816e13c''])])
     = SendError 500 (Some ''Fetched content does not match hash.'')"
proof -
  let ?ok = "''f0e4c2f76c58916ec258f246851bea091d14d4247a2fc3e18694461b1816e13b''"
  let ?bad = "''f0e4c2f76c58916ec258f246851bea091d14d4247a2fc3e18694461b1816e13c''"
  let ?args = "\<lambda>h. [(''a'', [''http://example.org/a'']), (''b'', [''http://example.org/a'']),
                     (''a_hash'', [h])]"
  let ?qp = "\<lambda>h. [''a'' \<mapsto> ''http://example.org/a'', ''b'' \<mapsto> ''http://example.org/a'',
                    ''a_hash'' \<mapsto> h]"
  have 1: "example_differs ''same_bytes'' = Some same_bytes"
    by (simp add: example_differs_def)
  have 2: "query_params_of example_env (?args h) Map.empty = Inr (?qp h)"
    if "list_all is_ascii h" for h
    using that by (simp add: example_defs)
  have asc: "list_all is_ascii ?ok" "list_all is_ascii ?bad"
    by (simp_all add: is_ascii_def)
  have 3: "?qp h ''a'' = Some ''http://example.org/a''" "?qp h ''b'' = Some ''http://example.org/a''"
    "?qp h ''a_hash'' = Some h" for h
    by simp_all
  have 4: "fetch example_env ''http://example.org/a'' = Inr page_a"
    by (simp add: example_env_def example_fetch_def)
  have d: "sha256_hexdigest example_env (body page_a) = ?ok"
    "sha256_hexdigest example_env (body page_a) \<noteq> ?bad"
    by (simp_all add: example_defs)
  from a_hash_compared_exactly [where differs = example_differs and qp = "?qp ?ok",
      OF 1 2 [OF asc(1)] 3(1) 3(2) 4 4 3(3)]
    a_hash_compared_exactly [where differs = example_differs and qp = "?qp ?bad",
      OF 1 2 [OF asc(2)] 3(1) 3(2) 4 4 3(3)] d
  show ?thesis by simp
qed

text \<open>
  C4 as stated (a hash equal to the digest up to letter case passes) fails: the digest
  of the body in upper case is rejected.
\<close>

theorem uppercase_a_hash_rejected_counterexample:
  "lower ''F0E4C2F76C58916EC258F246851BEA091D14D4247A2FC3E18694461B1816E13B''
     = sha256_hexdigest example_env (body page_a)
   \<and> get example_env example_differs ''same_bytes''
        [(''a'', [''http://example.org/a'']), (''b'', [''http://example.org/a'']),
         (''a_hash'', [''F0E4C2F76C58916EC258F246851BEA091D14D4247A2FC3E18694461B1816E13B''])]
     = \<lparr>response = SendError 500 (Some ''Fetched content does not match hash.''),
        trace = [Fetch ''http://example.org/a'', Fetch ''http://example.org/a'']\<rparr>"
  by (simp add: handler_defs example_defs lower_def lower_char_def)

text \<open>
  C5. A resource whose Content-Type header is absent should have its text decoded as
  UTF-8, and the binder should not raise. \<^verbatim>\<open>_extract_encoding\<close> indexes the headers, so
  a response without Content-Type makes \<^verbatim>\<open>caller\<close> raise \<^verbatim>\<open>KeyError\<close>, and the request is
  answered with 500.
\<close>

theorem missing_content_type_raises:
  "headers page_bare ''Content-Type'' = None
   \<and> caller example_env (probe ''texts'' [(''a_text'', Empty), (''b_text'', Empty)])
        page_bare page_b Map.empty
     = Inl (KeyError ''Content-Type'')
   \<and> get example_env example_differs ''texts''
        [(''a'', [''http://example.org/bare'']), (''b'', [''http://example.org/b''])]
     = \<lparr>response = Uncaught (KeyError ''Content-Type''),
        trace = [Fetch ''http://example.org/bare'', Fetch ''http://example.org/b'']\<rparr>"
  by (simp add: handler_defs example_defs)




text \<open>
  C7. A request that names a comparison which is not in the registry is answered with
  404, and no resource is fetched: the lookup comes before any fetch, and the 404 path
  returns without fetching.
\<close>

theorem unregistered_comparison_404:
  assumes "differs differ = None"
  shows "response (get e differs differ arguments) = SendError 404 None
         \<and> status (response (get e differs differ arguments)) = 404
         \<and> trace (get e differs differ arguments) = []"
  using assms by (simp add: get_def)

theorem unregistered_comparison_404_witness:
  "example_differs ''html_diff'' = None
   \<and> response (get example_env example_differs ''html_diff''
        [(''a'', [''http://example.org/a'']), (''b'', [''http://example.org/b''])])
       = SendError 404 None
   \<and> trace (get example_env example_differs ''html_diff''
        [(''a'', [''http://example.org/a'']), (''b'', [''http://example.org/b''])]) = []"
proof -
  have h: "example_differs ''html_diff'' = None"
    by (simp add: example_differs_def)
  from unregistered_comparison_404 [where differs = example_differs, OF h] h
  show ?thesis by simp
qed





text \<open>
  C10. After validation \<open>a_hash\<close> is no longer among the request parameters while
  \<open>b_hash\<close> still is, so \<open>b_hash\<close> reaches the binder: whenever the handler calls a differ
  that declares a parameter \<open>b_hash\<close>, the differ receives the hash string the client
  sent, and it never receives \<open>a_hash\<close>.
\<close>

theorem b_hash_forwarded_to_differ:
  assumes "differs differ = Some func"
    and "query_params_of e arguments Map.empty = Inr qp"
    and "qp ''b_hash'' = Some h"
    and "''b_hash'' \<in> fst ` set (parameters func)"
    and "Invoke fname kwargs \<in> set (trace (get e differs differ arguments))"
  shows "(\<exists>res_a res_b qp'.
            validate e [(''a_hash'', res_a), (''b_hash'', res_b)] (qp(''a'' := None, ''b'' := None))
              = Inr qp'
            \<and> qp' ''a_hash'' = None \<and> qp' ''b_hash'' = Some h
            \<and> caller_kwargs e func res_a res_b (as_keywords qp') = Inr kwargs)
         \<and> map_of kwargs ''a_hash'' = None
         \<and> map_of kwargs ''b_hash'' = Some (PStr h)"
proof -
  from assms(5) obtain func' qp0 a b res_a res_b qp' where
    f: "differs differ = Some func'"
    and q: "query_params_of e arguments Map.empty = Inr qp0"
    and v: "validate e [(''a_hash'', res_a), (''b_hash'', res_b)] (qp0(''a'' := None, ''b'' := None))
              = Inr qp'"
    and k: "caller_kwargs e func' res_a res_b (as_keywords qp') = Inr kwargs"
    by (rule get_invokeE)
  from f q assms(1,2) have same: "func' = func" "qp0 = qp"
    by simp_all
  have qp': "qp' = (qp(''a'' := None, ''b'' := None))(''a_hash'' := None)"
    using validate_result [OF v] same by simp
  have a_hash: "qp' ''a_hash'' = None" and b_hash: "qp' ''b_hash'' = Some h"
    using assms(3) by (simp_all add: qp')
  from k same obtain full where
    s: "supplement e res_a res_b (as_keywords qp') = Inr full"
    and b: "bind_kwargs (func_name func) full (parameters func) [] = Inr kwargs"
    by (auto simp: caller_kwargs_def split: sum.splits)
  obtain d where d: "supplement e res_a res_b Map.empty = Inr d"
    using supplement_total [OF s] by blast
  have full: "full n = (case as_keywords qp' n of Some w \<Rightarrow> Some w | None \<Rightarrow> d n)" for n
    using supplement_apply [OF s d] .
  have "d ''a_hash'' = None"
    using supplement_dom [OF d, of "''a_hash''"] by (simp add: derived_keys_def)
  with full [of "''a_hash''"] a_hash have fa: "full ''a_hash'' = None"
    by (simp add: as_keywords_def)
  from full [of "''b_hash''"] b_hash have fb: "full ''b_hash'' = Some (PStr h)"
    by (simp add: as_keywords_def)
  have "map_of kwargs ''a_hash'' = None"
    using bind_kwargs_map_of [OF b, of "''a_hash''"] fa by simp
  moreover have "map_of kwargs ''b_hash'' = Some (PStr h)"
    using bind_kwargs_map_of [OF b, of "''b_hash''"] fb assms(4) by simp
  ultimately show ?thesis
    using v k same a_hash b_hash by blast
qed

theorem b_hash_forwarded_to_differ_witness:
  "Invoke ''hashes'' [(''b_hash'', PStr ''00ff'')]
     \<in> set (trace (get example_env example_differs ''hashes''
          [(''a'', [''http://example.org/a'']), (''b'', [''http://example.org/b'']),
           (''a_hash'', [''f0e4c2f76c58916ec258f246851bea091d14d4247a2fc3e18694461b1816e13b'']),
           (''b_hash'', [''00ff''])]))
   \<and> map_of [(''b_hash'', PStr ''00ff'')] ''a_hash'' = None
   \<and> map_of [(''b_hash'', PStr ''00ff'')] ''b_hash'' = Some (PStr ''00ff'')"
proof -
  let ?args = "[(''a'', [''http://example.org/a'']), (''b'', [''http://example.org/b'']),
           (''a_hash'', [''f0e4c2f76c58916ec258f246851bea091d14d4247a2fc3e18694461b1816e13b'']),
           (''b_hash'', [''00ff''])]"
  let ?qp = "[''a'' \<mapsto> ''http://example.org/a'', ''b'' \<mapsto> ''http://example.org/b'',
      ''a_hash'' \<mapsto> ''f0e4c2f76c58916ec258f246851bea091d14d4247a2fc3e18694461b1816e13b'',
      ''b_hash'' \<mapsto> ''00ff'']"
  let ?f = "probe ''hashes'' [(''a_hash'', Default PNone), (''b_hash'', Empty)]"
  have 1: "example_differs ''hashes'' = Some ?f"
    by (simp add: example_differs_def)
  have 2: "query_params_of example_env ?args Map.empty = Inr ?qp"
    by (simp add: example_defs)
  have 3: "?qp ''b_hash'' = Some ''00ff''"
    by simp
  have 4: "''b_hash'' \<in> fst ` set (parameters ?f)"
    by (simp add: probe_def)
  have 5: "Invoke ''hashes'' [(''b_hash'', PStr ''00ff'')]
             \<in> set (trace (get example_env example_differs ''hashes'' ?args))"
    by (simp add: handler_defs example_defs)
  from b_hash_forwarded_to_differ [where differs = example_differs and qp = ?qp, OF 1 2 3 4 5] 5
  show ?thesis by simp
qed

end
